theory Spec2Isabelle
  imports Main "HOL-Library.Word"
begin

section \<open>Strings, roles and errors\<close>

text \<open>
  A JavaScript string is a sequence of UTF-16 code units, and \<^verbatim>\<open>.length\<close> counts
  code units. The literals of the source are ASCII and are embedded with \<open>js\<close>.
\<close>

type_synonym js_string = "16 word list"

definition js :: "string \<Rightarrow> js_string" where
  "js s = map (\<lambda>c. of_nat (of_char c)) s"

text \<open>
  Modelled from the spec: \<^verbatim>\<open>Role\<close> of models/User.js, which is not among the
  sources; the spec gives the enum admin | employee.
\<close>

datatype Role = ADMIN | EMPLOYEE

text \<open>
  Every exception the code can meet is a value. The first three are the classes the
  resolvers import from utils/errors.js, with their message; the next three are raised
  by jsonwebtoken's
  \<^verbatim>\<open>verify\<close>; \<open>TypeError\<close> is a property read on \<^verbatim>\<open>undefined\<close>;
  \<open>CastError\<close>, \<open>DuplicateKey\<close> and \<open>StoreUnavailable\<close> come from the document
  store; \<open>InvalidTokenError\<close> is raised by jwt-decode.
\<close>

datatype error =
    AuthenticationError string
  | ForbiddenError string
  | UserInputError string
  | JsonWebTokenError string
  | TokenExpiredError
  | NotBeforeError
  | TypeError
  | CastError
  | DuplicateKey
  | StoreUnavailable
  | InvalidTokenError

section \<open>The user store\<close>

type_synonym object_id = nat

text \<open>
  Modelled from the spec: the \<^verbatim>\<open>password\<close> field of a User document of
  models/User.js, which is not among the sources. It holds the plaintext between an
  assignment and the next \<^verbatim>\<open>save\<close> (\<open>Plain\<close>), and the digest afterwards
  (\<open>Hashed p\<close> is the digest of \<open>p\<close>: hashing is symbolic, a digest matches
  exactly the plaintext it was made from).
\<close>

datatype password_field = Plain js_string | Hashed js_string

text \<open>
  Modelled from the spec: the User document of the absent models/User.js, with the
  fields the spec lists; \<open>isNew\<close> tells a document not yet inserted.
\<close>

record user_doc =
  doc_id :: object_id
  doc_name :: js_string
  doc_email :: js_string
  doc_password :: password_field
  doc_role :: Role
  createdAt :: nat
  updatedAt :: nat
  isNew :: bool

text \<open>
  The store is the list of persisted documents, in insertion order, and whether the
  connection is up. An operation on a store whose connection is down raises
  \<open>StoreUnavailable\<close>.
\<close>

record db =
  users :: "user_doc list"
  db_connected :: bool

text \<open>
  A value read back from a token where an id is expected: the hex form of an
  ObjectId, a value that does not cast to one, or \<^verbatim>\<open>undefined\<close>.
\<close>

datatype json_id = IdHex object_id | IdBad | IdUndefined

text \<open>
  Modelled from the spec: models/User.js is not among the sources. The spec names the
  store collaborator's \<^verbatim>\<open>findByEmail\<close>, \<^verbatim>\<open>findById\<close>, \<^verbatim>\<open>insert\<close> and
  \<^verbatim>\<open>updateFields\<close>, a unique email, a password persisted as a digest, and a
  password check \<^verbatim>\<open>verify(plaintext, digest)\<close>. \<^verbatim>\<open>User.findOne({ email })\<close>:
\<close>

definition findOne_email :: "db \<Rightarrow> js_string \<Rightarrow> error + user_doc option" where
  "findOne_email d e =
     (if db_connected d then Inr (find (\<lambda>u. doc_email u = e) (users d))
      else Inl StoreUnavailable)"

text \<open>
  Modelled from the spec: \<^verbatim>\<open>User.findById(id)\<close> of the absent models/User.js. The
  id is cast first; \<^verbatim>\<open>undefined\<close> finds nothing.
\<close>

definition findById :: "db \<Rightarrow> json_id \<Rightarrow> error + user_doc option" where
  "findById d i =
     (case i of
        IdBad \<Rightarrow> Inl CastError
      | IdUndefined \<Rightarrow> (if db_connected d then Inr None else Inl StoreUnavailable)
      | IdHex k \<Rightarrow>
          (if db_connected d then Inr (find (\<lambda>u. doc_id u = k) (users d))
           else Inl StoreUnavailable))"

text \<open>
  Modelled from the spec: \<^verbatim>\<open>user.comparePassword(candidate)\<close> of the absent
  models/User.js, the password-hashing collaborator's \<^verbatim>\<open>verify\<close>.
\<close>

definition comparePassword :: "user_doc \<Rightarrow> js_string \<Rightarrow> bool" where
  "comparePassword u candidate =
     (case doc_password u of Hashed p \<Rightarrow> candidate = p | Plain _ \<Rightarrow> False)"

text \<open>
  Modelled from the spec: the identifier given to \<^verbatim>\<open>new User(...)\<close>, one that no
  persisted document carries.
\<close>

definition new_ObjectId :: "db \<Rightarrow> object_id" where
  "new_ObjectId d = Suc (foldr max (map doc_id (users d)) 0)"

text \<open>
  Modelled from the spec: the password-hashing collaborator's \<^verbatim>\<open>hash\<close>, applied
  by \<^verbatim>\<open>save\<close> to a modified password.
\<close>

definition hash_password :: "password_field \<Rightarrow> password_field" where
  "hash_password p = (case p of Plain s \<Rightarrow> Hashed s | Hashed s \<Rightarrow> Hashed s)"

text \<open>
  Modelled from the spec: \<^verbatim>\<open>user.save()\<close> of the absent models/User.js. A
  modified password is replaced by its digest; a new document is inserted unless its
  email is taken, an existing one is replaced in place.
\<close>

definition save :: "db \<Rightarrow> nat \<Rightarrow> user_doc \<Rightarrow> error + db" where
  "save d now u =
     (if \<not> db_connected d then Inl StoreUnavailable
      else if isNew u then
        (if \<exists>x \<in> set (users d). doc_email x = doc_email u then Inl DuplicateKey
         else Inr (d\<lparr>users := users d @
                 [u\<lparr>doc_password := hash_password (doc_password u),
                    createdAt := now, updatedAt := now, isNew := False\<rparr>]\<rparr>))
      else
        Inr (d\<lparr>users := map (\<lambda>x. if doc_id x = doc_id u
                 then u\<lparr>doc_password := hash_password (doc_password u), updatedAt := now\<rparr>
                 else x) (users d)\<rparr>))"

section \<open>Session tokens\<close>

text \<open>The claims \<^verbatim>\<open>{ id, name, email, role }\<close> embedded under \<^verbatim>\<open>user\<close>.\<close>

record claims =
  cl_id :: json_id
  cl_name :: js_string
  cl_email :: js_string
  cl_role :: Role

record jwt_payload =
  pl_user :: "claims option"
  pl_iat :: nat
  pl_nbf :: "nat option"
  pl_exp :: "nat option"

text \<open>
  A token string is either the compact serialisation of a payload together with the
  key its signature was made with (\<open>None\<close>: no signature), or any other string.
  Signatures are symbolic: one verifies under exactly the key that made it.
\<close>

datatype token = Jwt jwt_payload "js_string option" | Opaque js_string

text \<open>
  \<^verbatim>\<open>process.env.JWT_SECRET || 'your-secret-key'\<close>; the empty string is falsy.
  userResolvers.js and middleware/auth.js each compute this constant, from the same
  environment \<open>env\<close>.
\<close>

definition JWT_SECRET :: "js_string option \<Rightarrow> js_string" where
  "JWT_SECRET env =
     (case env of None \<Rightarrow> js ''your-secret-key''
      | Some s \<Rightarrow> if s = [] then js ''your-secret-key'' else s)"

text \<open>\<^verbatim>\<open>jwt.sign({ user }, secret, { expiresIn: '7d' })\<close> at the clock \<open>now\<close> (seconds).\<close>

definition jwt_sign :: "claims \<Rightarrow> js_string \<Rightarrow> nat \<Rightarrow> token" where
  "jwt_sign c secret now =
     Jwt \<lparr>pl_user = Some c, pl_iat = now, pl_nbf = None, pl_exp = Some (now + 604800)\<rparr>
         (Some secret)"

text \<open>\<^verbatim>\<open>jwt.verify(token, secret)\<close>: structure, signature, not-before, expiry.\<close>

definition jwt_verify :: "token \<Rightarrow> js_string \<Rightarrow> nat \<Rightarrow> error + jwt_payload" where
  "jwt_verify t secret now =
     (case t of
        Opaque s \<Rightarrow>
          Inl (JsonWebTokenError (if s = [] then ''jwt must be provided'' else ''jwt malformed''))
      | Jwt p sg \<Rightarrow>
          (case sg of
             None \<Rightarrow> Inl (JsonWebTokenError ''jwt signature is required'')
           | Some k \<Rightarrow>
               if k \<noteq> secret then Inl (JsonWebTokenError ''invalid signature'')
               else if (case pl_nbf p of None \<Rightarrow> False | Some n \<Rightarrow> n > now)
                 then Inl NotBeforeError
               else if (case pl_exp p of None \<Rightarrow> False | Some x \<Rightarrow> now \<ge> x)
                 then Inl TokenExpiredError
               else Inr p))"

text \<open>\<^verbatim>\<open>jwtDecode(token)\<close> of jwt-decode: the payload, with no check of the signature.\<close>

definition jwtDecode :: "token \<Rightarrow> error + jwt_payload" where
  "jwtDecode t = (case t of Opaque s \<Rightarrow> Inl InvalidTokenError | Jwt p sg \<Rightarrow> Inr p)"

section \<open>The token verifier (middleware/auth.js)\<close>

record user_info =
  u_id :: object_id
  u_name :: js_string
  u_email :: js_string
  u_role :: Role

text \<open>The body of the \<^verbatim>\<open>try\<close> block of \<^verbatim>\<open>verifyToken\<close>.\<close>

definition verifyToken_try ::
  "js_string option \<Rightarrow> db \<Rightarrow> nat \<Rightarrow> token \<Rightarrow> error + user_info option" where
  "verifyToken_try env d now t =
     (case jwt_verify t (JWT_SECRET env) now of
        Inl e \<Rightarrow> Inl e
      | Inr decoded \<Rightarrow>
          (case pl_user decoded of
             None \<Rightarrow> Inl TypeError
           | Some c \<Rightarrow>
               (case findById d (cl_id c) of
                  Inl e \<Rightarrow> Inl e
                | Inr None \<Rightarrow> Inr None
                | Inr (Some user) \<Rightarrow>
                    Inr (Some \<lparr>u_id = doc_id user, u_name = doc_name user,
                               u_email = doc_email user, u_role = doc_role user\<rparr>))))"

text \<open>
  \<^verbatim>\<open>verifyToken\<close>: \<open>Inl\<close> is a rejected promise, \<open>Inr None\<close> the value
  \<^verbatim>\<open>null\<close>. The \<^verbatim>\<open>catch\<close> turns every error of the body into \<^verbatim>\<open>null\<close>.
\<close>

definition verifyToken ::
  "js_string option \<Rightarrow> db \<Rightarrow> nat \<Rightarrow> token \<Rightarrow> error + user_info option" where
  "verifyToken env d now t =
     (case verifyToken_try env d now t of Inl err \<Rightarrow> Inr None | Inr r \<Rightarrow> Inr r)"

section \<open>The credential issuer (resolvers/userResolvers.js)\<close>

record register_input =
  in_name :: js_string
  in_email :: js_string
  in_password :: js_string
  in_role :: "Role option"

record auth_payload =
  token :: token

text \<open>The claims both \<^verbatim>\<open>register\<close> and \<^verbatim>\<open>login\<close> sign, read from the document.\<close>

definition claims_of :: "user_doc \<Rightarrow> claims" where
  "claims_of user =
     \<lparr>cl_id = IdHex (doc_id user), cl_name = doc_name user,
      cl_email = doc_email user, cl_role = doc_role user\<rparr>"

text \<open>
  A resolver returns its outcome (\<open>Inl\<close>: the exception thrown) and the store as the
  call leaves it.
\<close>

definition register ::
  "js_string option \<Rightarrow> db \<Rightarrow> nat \<Rightarrow> register_input \<Rightarrow> (error + auth_payload) \<times> db" where
  "register env d now input =
     (case findOne_email d (in_email input) of
        Inl e \<Rightarrow> (Inl e, d)
      | Inr (Some existingUser) \<Rightarrow> (Inl (UserInputError ''Email already exists''), d)
      | Inr None \<Rightarrow>
          (let user = \<lparr>doc_id = new_ObjectId d, doc_name = in_name input,
                       doc_email = in_email input, doc_password = Plain (in_password input),
                       doc_role = (case in_role input of None \<Rightarrow> EMPLOYEE | Some r \<Rightarrow> r),
                       createdAt = now, updatedAt = now, isNew = True\<rparr>
           in case save d now user of
                Inl e \<Rightarrow> (Inl e, d)
              | Inr d' \<Rightarrow>
                  (Inr \<lparr>token = jwt_sign (claims_of user) (JWT_SECRET env) now\<rparr>, d')))"

definition login ::
  "js_string option \<Rightarrow> db \<Rightarrow> nat \<Rightarrow> js_string \<Rightarrow> js_string \<Rightarrow> (error + auth_payload) \<times> db" where
  "login env d now email password =
     (case findOne_email d email of
        Inl e \<Rightarrow> (Inl e, d)
      | Inr None \<Rightarrow> (Inl (UserInputError ''Invalid email or password''), d)
      | Inr (Some user) \<Rightarrow>
          if \<not> comparePassword user password
          then (Inl (UserInputError ''Invalid email or password''), d)
          else (Inr \<lparr>token = jwt_sign (claims_of user) (JWT_SECRET env) now\<rparr>, d))"

text \<open>The GraphQL context of a request: the identity the verifier gave, or \<^verbatim>\<open>null\<close>.\<close>

record gql_context =
  ctx_user :: "user_info option"

record change_result =
  success :: bool
  message :: string

definition changePassword ::
  "db \<Rightarrow> nat \<Rightarrow> gql_context \<Rightarrow> js_string \<Rightarrow> js_string \<Rightarrow> (error + change_result) \<times> db" where
  "changePassword d now ctx currentPassword newPassword =
     (case ctx_user ctx of
        None \<Rightarrow> (Inl (AuthenticationError ''Not authenticated''), d)
      | Some user \<Rightarrow>
          (case findById d (IdHex (u_id user)) of
             Inl e \<Rightarrow> (Inl e, d)
           | Inr None \<Rightarrow> (Inl (UserInputError ''User not found''), d)
           | Inr (Some foundUser) \<Rightarrow>
               if \<not> comparePassword foundUser currentPassword
               then (Inr \<lparr>success = False, message = ''Current password is incorrect''\<rparr>, d)
               else if length newPassword < 8
               then (Inr \<lparr>success = False,
                          message = ''New password must be at least 8 characters''\<rparr>, d)
               else
                 (case save d now (foundUser\<lparr>doc_password := Plain newPassword\<rparr>) of
                    Inl e \<Rightarrow> (Inl e, d)
                  | Inr d' \<Rightarrow>
                      (Inr \<lparr>success = True, message = ''Password changed successfully''\<rparr>,
                       d'))))"

section \<open>The request context (index.js)\<close>

text \<open>\<^verbatim>\<open>s.split(sep)\<close> for a one-unit separator: the fields between its occurrences.\<close>

fun split_on :: "'a \<Rightarrow> 'a list \<Rightarrow> 'a list list" where
  "split_on sep [] = [[]]"
| "split_on sep (c # cs) =
     (if c = sep then [] # split_on sep cs
      else (case split_on sep cs of [] \<Rightarrow> [[c]] | p # ps \<Rightarrow> (c # p) # ps))"

text \<open>An array read \<^verbatim>\<open>xs[i]\<close>: \<open>None\<close> is \<^verbatim>\<open>undefined\<close>.\<close>

definition at_index :: "'a list \<Rightarrow> nat \<Rightarrow> 'a option" where
  "at_index xs i = (if i < length xs then Some (xs ! i) else None)"

record request =
  authorization :: "js_string option"

text \<open>
  The \<^verbatim>\<open>context\<close> function given to \<^verbatim>\<open>expressMiddleware\<close>. The verifier is the
  function imported from middleware/auth.js, here the parameter \<open>verifier\<close>; it takes
  the token as the string read from the header.
\<close>

definition header_token :: "request \<Rightarrow> js_string" where
  "header_token req =
     (case (case authorization req of None \<Rightarrow> None
            | Some h \<Rightarrow> at_index (split_on 0x20 h) 1) of
        None \<Rightarrow> []
      | Some t \<Rightarrow> if t = [] then [] else t)"

definition graphql_context ::
  "(js_string \<Rightarrow> error + user_info option) \<Rightarrow> request \<Rightarrow> error + gql_context" where
  "graphql_context verifier req =
     (let token = header_token req
      in if token \<noteq> []
         then (case verifier token of
                 Inl e \<Rightarrow> Inl e
               | Inr user \<Rightarrow> Inr \<lparr>ctx_user = user\<rparr>)
         else Inr \<lparr>ctx_user = None\<rparr>)"

section \<open>The session context provider (client)\<close>

text \<open>
  The state of \<^verbatim>\<open>AuthProvider\<close>: the two \<^verbatim>\<open>useState\<close> cells, the \<^verbatim>\<open>token\<close>
  entry of \<^verbatim>\<open>localStorage\<close>, and the lines written to the console.
\<close>

record auth_state =
  st_user :: "claims option"
  loading :: bool
  storage :: "token option"
  console :: "string list"

definition isAuthenticated :: "auth_state \<Rightarrow> bool" where
  "isAuthenticated st = (st_user st \<noteq> None)"

text \<open>\<^verbatim>\<open>login(token)\<close> of \<^verbatim>\<open>AuthProvider\<close>.\<close>

definition AuthProvider_login :: "token \<Rightarrow> auth_state \<Rightarrow> auth_state" where
  "AuthProvider_login t st =
     (let st1 = st\<lparr>storage := Some t\<rparr>
      in case jwtDecode t of
           Inr decoded \<Rightarrow> st1\<lparr>st_user := pl_user decoded\<rparr>
         | Inl err \<Rightarrow> st1\<lparr>console := console st1 @ [''Invalid token:'']\<rparr>)"

section \<open>A concrete scenario\<close>

text \<open>
  The scenario of the specification: Alice registers with a@x.com and secret1234 on an
  empty store, at the clock 1000.
\<close>

definition alice_input :: register_input where
  "alice_input = \<lparr>in_name = js ''Alice'', in_email = js ''a@x.com'',
                   in_password = js ''secret1234'', in_role = None\<rparr>"

definition store_empty :: db where
  "store_empty = \<lparr>users = [], db_connected = True\<rparr>"

definition alice_doc :: user_doc where
  "alice_doc = \<lparr>doc_id = 1, doc_name = js ''Alice'', doc_email = js ''a@x.com'',
                 doc_password = Hashed (js ''secret1234''), doc_role = EMPLOYEE,
                 createdAt = 1000, updatedAt = 1000, isNew = False\<rparr>"

definition store_alice :: db where
  "store_alice = \<lparr>users = [alice_doc], db_connected = True\<rparr>"

definition alice_claims :: claims where
  "alice_claims = \<lparr>cl_id = IdHex 1, cl_name = js ''Alice'', cl_email = js ''a@x.com'',
                    cl_role = EMPLOYEE\<rparr>"

definition alice_token :: token where
  "alice_token = jwt_sign alice_claims (JWT_SECRET None) 1000"

definition alice_info :: user_info where
  "alice_info = \<lparr>u_id = 1, u_name = js ''Alice'', u_email = js ''a@x.com'', u_role = EMPLOYEE\<rparr>"

text \<open>Alice's record after a rename and a promotion made behind the token's back.\<close>

definition promoted_doc :: user_doc where
  "promoted_doc = alice_doc\<lparr>doc_name := js ''Alicia'', doc_role := ADMIN, updatedAt := 1200\<rparr>"

text \<open>The client context before any login.\<close>

definition anonymous :: auth_state where
  "anonymous = \<lparr>st_user = None, loading = False, storage = None, console = []\<rparr>"

section \<open>Auxiliary facts\<close>

lemma find_SomeD: "find P xs = Some x \<Longrightarrow> P x \<and> x \<in> set xs"
  by (induction xs) (auto split: if_splits)

lemma find_append_fresh:
  "\<forall>x \<in> set xs. \<not> P x \<Longrightarrow> P y \<Longrightarrow> find P (xs @ [y]) = Some y"
  by (induction xs) auto

lemma foldr_max_ge: "x \<in> set xs \<Longrightarrow> x \<le> foldr max xs (0::nat)"
  by (induction xs) (auto simp: max_def)

lemma new_ObjectId_fresh: "x \<in> set (users d) \<Longrightarrow> doc_id x \<noteq> new_ObjectId d"
  using foldr_max_ge [of "doc_id x" "map doc_id (users d)"]
  by (auto simp: new_ObjectId_def)

lemma verifyToken_total: "\<exists>r. verifyToken env d now t = Inr r"
  by (simp add: verifyToken_def split: sum.split)

lemma verifyToken_jwt_error:
  "jwt_verify t (JWT_SECRET env) now = Inl e \<Longrightarrow> verifyToken env d now t = Inr None"
  by (simp add: verifyToken_def verifyToken_try_def)

text \<open>What a non-null answer of the verifier tells about the token and the store.\<close>

lemma verifyToken_SomeD:
  assumes "verifyToken env d now t = Inr (Some u)"
  shows "\<exists>p c k r. jwt_verify t (JWT_SECRET env) now = Inr p \<and> pl_user p = Some c \<and>
           cl_id c = IdHex k \<and> db_connected d \<and>
           find (\<lambda>x. doc_id x = k) (users d) = Some r \<and>
           u = \<lparr>u_id = doc_id r, u_name = doc_name r, u_email = doc_email r,
                u_role = doc_role r\<rparr>"
  using assms
  by (auto simp: verifyToken_def verifyToken_try_def findById_def
      split: sum.splits option.splits json_id.splits if_splits)

text \<open>A record the store finds under the token's id is the one the verifier returns.\<close>

lemma verifyToken_found:
  assumes "jwt_verify t (JWT_SECRET env) now = Inr p" and "pl_user p = Some c"
    and "findById d (cl_id c) = Inr (Some r)"
  shows "verifyToken env d now t =
           Inr (Some \<lparr>u_id = doc_id r, u_name = doc_name r, u_email = doc_email r,
                      u_role = doc_role r\<rparr>)"
  using assms by (simp add: verifyToken_def verifyToken_try_def)

text \<open>A token of \<open>jwt_sign\<close> verifies under its key until seven days have passed.\<close>

lemma jwt_verify_sign:
  "now' < now + 604800 \<Longrightarrow>
     jwt_verify (jwt_sign c secret now) secret now' =
       Inr \<lparr>pl_user = Some c, pl_iat = now, pl_nbf = None, pl_exp = Some (now + 604800)\<rparr>"
  by (simp add: jwt_verify_def jwt_sign_def)

text \<open>What a successful registration tells about the store before and after.\<close>

lemma register_InrD:
  assumes "register env d now inp = (Inr out, d')"
  shows "db_connected d \<and> (\<forall>x \<in> set (users d). doc_email x \<noteq> in_email inp) \<and>
         token out = jwt_sign \<lparr>cl_id = IdHex (new_ObjectId d), cl_name = in_name inp,
                        cl_email = in_email inp,
                        cl_role = (case in_role inp of None \<Rightarrow> EMPLOYEE | Some ro \<Rightarrow> ro)\<rparr>
                      (JWT_SECRET env) now \<and>
         d' = d\<lparr>users := users d @
                [\<lparr>doc_id = new_ObjectId d, doc_name = in_name inp, doc_email = in_email inp,
                  doc_password = Hashed (in_password inp),
                  doc_role = (case in_role inp of None \<Rightarrow> EMPLOYEE | Some ro \<Rightarrow> ro),
                  createdAt = now, updatedAt = now, isNew = False\<rparr>]\<rparr>"
  using assms
  by (auto simp: register_def findOne_email_def save_def claims_of_def hash_password_def
      Let_def find_None_iff split: if_splits option.splits)

lemma jwt_verify_alice:
  "jwt_verify alice_token (JWT_SECRET None) 1500 =
     Inr \<lparr>pl_user = Some alice_claims, pl_iat = 1000, pl_nbf = None, pl_exp = Some 605800\<rparr>"
  by (simp add: jwt_verify_def alice_token_def jwt_sign_def)

lemma register_alice:
  "register None store_empty 1000 alice_input = (Inr \<lparr>token = alice_token\<rparr>, store_alice)"
  by (simp add: register_def store_empty_def alice_input_def alice_doc_def findOne_email_def
      save_def new_ObjectId_def hash_password_def store_alice_def alice_token_def
      alice_claims_def claims_of_def)

lemma verifyToken_alice: "verifyToken None store_alice 1500 alice_token = Inr (Some alice_info)"
  by (simp add: verifyToken_def verifyToken_try_def jwt_verify_alice findById_def
      store_alice_def alice_doc_def alice_info_def alice_claims_def)

section \<open>Registration and verification\<close>

text \<open>
  C1. After a successful registration (which implies that the email was not yet in the
  store), verifying the issued token less than seven days after issuance returns a
  non-null user whose id is that of the record persisted under the registered email,
  and whose name, email and role are the registered ones (the role defaulting to
  employee). This holds on the store the registration leaves, and on every later
  store that still finds that record under its id.
\<close>

theorem register_then_verify:
  assumes reg: "register env d now inp = (Inr out, d')"
    and live: "now' < now + 604800"
  shows "\<exists>r. findOne_email d' (in_email inp) = Inr (Some r) \<and>
           verifyToken env d' now' (token out) =
             Inr (Some \<lparr>u_id = doc_id r, u_name = in_name inp, u_email = in_email inp,
                        u_role = (case in_role inp of None \<Rightarrow> EMPLOYEE | Some ro \<Rightarrow> ro)\<rparr>) \<and>
           (\<forall>d''. findById d'' (IdHex (doc_id r)) = Inr (Some r) \<longrightarrow>
              verifyToken env d'' now' (token out) =
                Inr (Some \<lparr>u_id = doc_id r, u_name = in_name inp, u_email = in_email inp,
                           u_role = (case in_role inp of None \<Rightarrow> EMPLOYEE | Some ro \<Rightarrow> ro)\<rparr>))"
proof -
  define ro where "ro = (case in_role inp of None \<Rightarrow> EMPLOYEE | Some x \<Rightarrow> x)"
  define c where "c = \<lparr>cl_id = IdHex (new_ObjectId d), cl_name = in_name inp,
      cl_email = in_email inp, cl_role = ro\<rparr>"
  define stored where "stored = \<lparr>doc_id = new_ObjectId d, doc_name = in_name inp,
      doc_email = in_email inp, doc_password = Hashed (in_password inp), doc_role = ro,
      createdAt = now, updatedAt = now, isNew = False\<rparr>"
  from register_InrD [OF reg] have conn: "db_connected d"
    and uniq: "\<forall>x \<in> set (users d). doc_email x \<noteq> in_email inp"
    and tok: "token out = jwt_sign c (JWT_SECRET env) now"
    and d': "d' = d\<lparr>users := users d @ [stored]\<rparr>"
    by (simp_all add: c_def stored_def ro_def)
  have jv: "jwt_verify (token out) (JWT_SECRET env) now' =
      Inr \<lparr>pl_user = Some c, pl_iat = now, pl_nbf = None, pl_exp = Some (now + 604800)\<rparr>"
    unfolding tok using live by (rule jwt_verify_sign)
  have cid: "cl_id c = IdHex (doc_id stored)" by (simp add: c_def stored_def)
  have fresh: "\<forall>x \<in> set (users d). \<not> doc_id x = doc_id stored"
    using new_ObjectId_fresh [of _ d] by (simp add: stored_def)
  have byid: "findById d' (IdHex (doc_id stored)) = Inr (Some stored)"
    using conn fresh by (simp add: findById_def d' find_append_fresh)
  have byemail: "findOne_email d' (in_email inp) = Inr (Some stored)"
    using conn uniq by (simp add: findOne_email_def d' find_append_fresh stored_def)
  have ver: "verifyToken env d'' now' (token out) =
      Inr (Some \<lparr>u_id = doc_id stored, u_name = in_name inp, u_email = in_email inp,
                 u_role = ro\<rparr>)"
    if "findById d'' (IdHex (doc_id stored)) = Inr (Some stored)" for d''
    using verifyToken_found [OF jv, of c d'' stored] that cid by (simp add: stored_def)
  from byemail ver [OF byid] ver show ?thesis
    unfolding ro_def by blast
qed

text \<open>
  Witness: Alice's registration succeeds on the empty store, and her token verifies
  500 seconds later to her identity.
\<close>

theorem register_then_verify_witness:
  "register None store_empty 1000 alice_input = (Inr \<lparr>token = alice_token\<rparr>, store_alice) \<and>
   (1500::nat) < 1000 + 604800 \<and>
   verifyToken None store_alice 1500 alice_token =
     Inr (Some \<lparr>u_id = 1, u_name = js ''Alice'', u_email = js ''a@x.com'',
                u_role = EMPLOYEE\<rparr>)"
proof -
  have live: "(1500::nat) < 1000 + 604800" by simp
  from register_then_verify [OF register_alice live] obtain r where
    r: "findOne_email store_alice (in_email alice_input) = Inr (Some r)"
    and v: "verifyToken None store_alice 1500 (token \<lparr>token = alice_token\<rparr>) =
      Inr (Some \<lparr>u_id = doc_id r, u_name = in_name alice_input,
                 u_email = in_email alice_input,
                 u_role = (case in_role alice_input of None \<Rightarrow> EMPLOYEE | Some ro \<Rightarrow> ro)\<rparr>)"
    by blast
  from r have "r = alice_doc"
    by (simp add: findOne_email_def store_alice_def alice_doc_def alice_input_def)
  with v have "verifyToken None store_alice 1500 alice_token =
     Inr (Some \<lparr>u_id = 1, u_name = js ''Alice'', u_email = js ''a@x.com'',
                u_role = EMPLOYEE\<rparr>)"
    by (simp add: alice_doc_def alice_input_def)
  with register_alice live show ?thesis by simp
qed

section \<open>The verifier against the live store\<close>

text \<open>
  C2. \<^verbatim>\<open>verifyToken\<close> returns a non-null result only if the token verifies, carries a
  user id, and a record with that id is in the store at verification time (the result
  carries that id). If the token verifies and carries a user, but no record of the
  store has the embedded id (the user was deleted after issuance), the result is
  \<^verbatim>\<open>null\<close>.
\<close>

theorem verifyToken_requires_live_user:
  "(verifyToken env d now t = Inr (Some u) \<longrightarrow>
      (\<exists>p c k r. jwt_verify t (JWT_SECRET env) now = Inr p \<and> pl_user p = Some c \<and>
         cl_id c = IdHex k \<and> r \<in> set (users d) \<and> doc_id r = k \<and> u_id u = k)) \<and>
   (jwt_verify t (JWT_SECRET env) now = Inr p \<and> pl_user p = Some c \<and>
      (\<forall>r \<in> set (users d). IdHex (doc_id r) \<noteq> cl_id c) \<longrightarrow>
      verifyToken env d now t = Inr None)"
proof (intro conjI impI)
  assume "verifyToken env d now t = Inr (Some u)"
  from verifyToken_SomeD [OF this] obtain p c k r where
    h: "jwt_verify t (JWT_SECRET env) now = Inr p" "pl_user p = Some c" "cl_id c = IdHex k"
       "find (\<lambda>x. doc_id x = k) (users d) = Some r"
       "u = \<lparr>u_id = doc_id r, u_name = doc_name r, u_email = doc_email r, u_role = doc_role r\<rparr>"
    by blast
  from h(4) have "r \<in> set (users d) \<and> doc_id r = k"
    by (auto dest: find_SomeD)
  with h show "\<exists>p c k r. jwt_verify t (JWT_SECRET env) now = Inr p \<and> pl_user p = Some c \<and>
         cl_id c = IdHex k \<and> r \<in> set (users d) \<and> doc_id r = k \<and> u_id u = k"
    by auto
next
  assume a: "jwt_verify t (JWT_SECRET env) now = Inr p \<and> pl_user p = Some c \<and>
      (\<forall>r \<in> set (users d). IdHex (doc_id r) \<noteq> cl_id c)"
  then have "\<And>k. cl_id c = IdHex k \<Longrightarrow> find (\<lambda>x. doc_id x = k) (users d) = None"
    by (auto simp: find_None_iff)
  with a show "verifyToken env d now t = Inr None"
    by (auto simp: verifyToken_def verifyToken_try_def findById_def
        split: json_id.splits sum.splits option.splits)
qed

text \<open>
  Witness: Alice's token, still unexpired and correctly signed, yields \<^verbatim>\<open>null\<close> on a
  store from which her record is gone, and her identity while the record is there.
\<close>

theorem verifyToken_requires_live_user_witness:
  "jwt_verify alice_token (JWT_SECRET None) 1500 =
     Inr \<lparr>pl_user = Some alice_claims, pl_iat = 1000, pl_nbf = None, pl_exp = Some 605800\<rparr> \<and>
   users store_empty = [] \<and>
   verifyToken None store_empty 1500 alice_token = Inr None \<and>
   verifyToken None store_alice 1500 alice_token = Inr (Some alice_info) \<and>
   alice_doc \<in> set (users store_alice)"
proof -
  have e: "users store_empty = []" by (simp add: store_empty_def)
  have "verifyToken None store_empty 1500 alice_token = Inr None"
    using verifyToken_requires_live_user [where env = None and d = store_empty and now = 1500
        and t = alice_token and c = alice_claims
        and p = "\<lparr>pl_user = Some alice_claims, pl_iat = 1000, pl_nbf = None,
                  pl_exp = Some 605800\<rparr>"]
      jwt_verify_alice e
    by simp
  with jwt_verify_alice e verifyToken_alice show ?thesis
    by (simp add: store_alice_def)
qed

text \<open>
  C3. \<^verbatim>\<open>verifyToken\<close> never throws: for every token, store, clock and secret it
  returns a value. Whenever the check of the token fails the value is \<^verbatim>\<open>null\<close>; in
  particular for a string that is no token, for a signature missing or made with
  another key, and for a token at or past its expiry.
\<close>

theorem verifyToken_never_throws:
  "(\<exists>r. verifyToken env d now t = Inr r) \<and>
   (\<forall>e. jwt_verify t (JWT_SECRET env) now = Inl e \<longrightarrow> verifyToken env d now t = Inr None) \<and>
   verifyToken env d now (Opaque s) = Inr None \<and>
   (sg \<noteq> Some (JWT_SECRET env) \<longrightarrow> verifyToken env d now (Jwt p sg) = Inr None) \<and>
   (\<forall>x. pl_exp p = Some x \<and> x \<le> now \<longrightarrow> verifyToken env d now (Jwt p sg) = Inr None)"
proof (intro conjI allI impI)
  show "\<exists>r. verifyToken env d now t = Inr r" by (rule verifyToken_total)
  show "verifyToken env d now t = Inr None" if "jwt_verify t (JWT_SECRET env) now = Inl e" for e
    using that by (rule verifyToken_jwt_error)
  have "\<exists>e. jwt_verify (Opaque s) (JWT_SECRET env) now = Inl e"
    by (simp add: jwt_verify_def)
  then show "verifyToken env d now (Opaque s) = Inr None"
    by (auto dest: verifyToken_jwt_error)
  show "verifyToken env d now (Jwt p sg) = Inr None" if "sg \<noteq> Some (JWT_SECRET env)"
  proof -
    from that have "\<exists>e. jwt_verify (Jwt p sg) (JWT_SECRET env) now = Inl e"
      by (cases sg) (auto simp: jwt_verify_def)
    then show ?thesis by (auto dest: verifyToken_jwt_error)
  qed
  show "verifyToken env d now (Jwt p sg) = Inr None" if "pl_exp p = Some x \<and> x \<le> now" for x
  proof -
    from that have "\<exists>e. jwt_verify (Jwt p sg) (JWT_SECRET env) now = Inl e"
      by (cases sg) (auto simp: jwt_verify_def)
    then show ?thesis by (auto dest: verifyToken_jwt_error)
  qed
qed

text \<open>
  Witness: Alice's token at the second of its expiry, and the same token before expiry
  under a server that holds another secret.
\<close>

theorem verifyToken_never_throws_witness:
  "jwt_verify alice_token (JWT_SECRET None) 605800 = Inl TokenExpiredError \<and>
   verifyToken None store_alice 605800 alice_token = Inr None \<and>
   Some (JWT_SECRET None) \<noteq> Some (JWT_SECRET (Some (js ''other-secret''))) \<and>
   verifyToken (Some (js ''other-secret'')) store_alice 1500 alice_token = Inr None"
proof -
  have a: "jwt_verify alice_token (JWT_SECRET None) 605800 = Inl TokenExpiredError"
    by (simp add: jwt_verify_def alice_token_def jwt_sign_def)
  have b: "Some (JWT_SECRET None) \<noteq> Some (JWT_SECRET (Some (js ''other-secret'')))"
    by (simp add: JWT_SECRET_def js_def)
  from verifyToken_never_throws [where env = None and d = store_alice and now = 605800
      and t = alice_token] a
  have c: "verifyToken None store_alice 605800 alice_token = Inr None" by blast
  from verifyToken_never_throws [where env = "Some (js ''other-secret'')" and d = store_alice
      and now = 1500 and sg = "Some (JWT_SECRET None)"
      and p = "\<lparr>pl_user = Some alice_claims, pl_iat = 1000, pl_nbf = None,
                pl_exp = Some (1000 + 604800)\<rparr>"] b
  have "verifyToken (Some (js ''other-secret'')) store_alice 1500 alice_token = Inr None"
    unfolding alice_token_def jwt_sign_def by blast
  with a b c show ?thesis by simp
qed

section \<open>Failed registrations and logins\<close>

text \<open>
  C4. When a record of the store already carries the email of a registration,
  \<^verbatim>\<open>register\<close> fails and leaves the store as it was; whenever the store answers the
  lookup, the failure is the input error "Email already exists".
\<close>

theorem register_duplicate_email:
  assumes "\<exists>x \<in> set (users d). doc_email x = in_email inp"
  shows "\<exists>e. register env d now inp = (Inl e, d) \<and>
             (db_connected d \<longrightarrow> e = UserInputError ''Email already exists'')"
proof (cases "db_connected d")
  case False
  then show ?thesis by (simp add: register_def findOne_email_def)
next
  case True
  from assms have "find (\<lambda>u. doc_email u = in_email inp) (users d) \<noteq> None"
    by (auto simp: find_None_iff)
  then obtain x where "find (\<lambda>u. doc_email u = in_email inp) (users d) = Some x" by blast
  with True show ?thesis by (simp add: register_def findOne_email_def)
qed

text \<open>
  Witness: the second registration of the specification's scenario, Alice2 with
  a@x.com, on the store that holds Alice.
\<close>

theorem register_duplicate_email_witness:
  "doc_email alice_doc = js ''a@x.com'' \<and>
   db_connected store_alice \<and>
   register None store_alice 2000
     \<lparr>in_name = js ''Alice2'', in_email = js ''a@x.com'',
      in_password = js ''other1234'', in_role = None\<rparr> =
     (Inl (UserInputError ''Email already exists''), store_alice)"
  using register_duplicate_email [of store_alice
      "\<lparr>in_name = js ''Alice2'', in_email = js ''a@x.com'',
        in_password = js ''other1234'', in_role = None\<rparr>" None 2000]
  by (auto simp: alice_doc_def store_alice_def)

text \<open>
  C5. A login with an email that no record carries and a login with the email of a
  record but a password that does not match it fail with the same error: the same
  class and the same message, "Invalid email or password". Neither changes the store.
\<close>

theorem login_failures_indistinguishable:
  assumes "findOne_email d1 email1 = Inr None"
    and "findOne_email d2 email2 = Inr (Some user)"
    and "\<not> comparePassword user password2"
  shows "fst (login env d1 now1 email1 password1) = fst (login env d2 now2 email2 password2) \<and>
         fst (login env d1 now1 email1 password1) =
           Inl (UserInputError ''Invalid email or password'') \<and>
         snd (login env d1 now1 email1 password1) = d1 \<and>
         snd (login env d2 now2 email2 password2) = d2"
  using assms by (simp add: login_def)

text \<open>
  Witness: on the store that holds Alice, a login as b@x.com and a login as a@x.com
  with a wrong password.
\<close>

theorem login_failures_indistinguishable_witness:
  "findOne_email store_alice (js ''b@x.com'') = Inr None \<and>
   findOne_email store_alice (js ''a@x.com'') = Inr (Some alice_doc) \<and>
   comparePassword alice_doc (js ''wrong'') = False \<and>
   fst (login None store_alice 2000 (js ''b@x.com'') (js ''secret1234'')) =
     Inl (UserInputError ''Invalid email or password'') \<and>
   fst (login None store_alice 2000 (js ''a@x.com'') (js ''wrong'')) =
     Inl (UserInputError ''Invalid email or password'')"
proof -
  have a: "findOne_email store_alice (js ''b@x.com'') = Inr None"
    by (simp add: findOne_email_def store_alice_def alice_doc_def js_def)
  have b: "findOne_email store_alice (js ''a@x.com'') = Inr (Some alice_doc)"
    by (simp add: findOne_email_def store_alice_def alice_doc_def)
  have c: "\<not> comparePassword alice_doc (js ''wrong'')"
    by (simp add: comparePassword_def alice_doc_def js_def)
  from login_failures_indistinguishable [OF a b c, of None 2000 "js ''secret1234''" 2000]
  have e1: "fst (login None store_alice 2000 (js ''b@x.com'') (js ''secret1234'')) =
      fst (login None store_alice 2000 (js ''a@x.com'') (js ''wrong''))"
    and e2: "fst (login None store_alice 2000 (js ''b@x.com'') (js ''secret1234'')) =
      Inl (UserInputError ''Invalid email or password'')"
    by blast+
  have e3: "fst (login None store_alice 2000 (js ''a@x.com'') (js ''wrong'')) =
      Inl (UserInputError ''Invalid email or password'')"
    by (simp only: e1 [symmetric] e2)
  from a b c e2 e3 show ?thesis by simp
qed

section \<open>Changing the password\<close>

text \<open>
  C6, as amended. For every call of \<^verbatim>\<open>changePassword\<close> with a context user and a
  new password of fewer than 8 characters, the store, so every stored password digest,
  is left unchanged. When the store finds a record under the context user's id, the
  call returns a result with \<^verbatim>\<open>success: false\<close> (it does not throw).
\<close>

theorem changePassword_short_new_password:
  assumes short: "length newPassword < 8"
  shows "snd (changePassword d now \<lparr>ctx_user = Some user\<rparr> currentPassword newPassword) = d \<and>
         (\<forall>r. findById d (IdHex (u_id user)) = Inr (Some r) \<longrightarrow>
            (\<exists>m. changePassword d now \<lparr>ctx_user = Some user\<rparr> currentPassword newPassword =
                   (Inr \<lparr>success = False, message = m\<rparr>, d)))"
  using short by (simp add: changePassword_def split: sum.split option.split)

text \<open>
  Witness: Alice, whose record the store holds, gives her current password and the new
  password "short".
\<close>

theorem changePassword_short_new_password_witness:
  "length (js ''short'') < 8 \<and>
   findById store_alice (IdHex (u_id alice_info)) = Inr (Some alice_doc) \<and>
   changePassword store_alice 1600 \<lparr>ctx_user = Some alice_info\<rparr>
       (js ''secret1234'') (js ''short'') =
     (Inr \<lparr>success = False, message = ''New password must be at least 8 characters''\<rparr>,
      store_alice)"
proof -
  have l: "length (js ''short'') < 8" by (simp add: js_def)
  have f: "findById store_alice (IdHex (u_id alice_info)) = Inr (Some alice_doc)"
    by (simp add: findById_def store_alice_def alice_info_def alice_doc_def)
  from changePassword_short_new_password [OF l, of store_alice 1600 alice_info
      "js ''secret1234''"] f
  obtain m where m: "changePassword store_alice 1600 \<lparr>ctx_user = Some alice_info\<rparr>
      (js ''secret1234'') (js ''short'') = (Inr \<lparr>success = False, message = m\<rparr>, store_alice)"
    by blast
  have "fst (changePassword store_alice 1600 \<lparr>ctx_user = Some alice_info\<rparr>
      (js ''secret1234'') (js ''short'')) =
      Inr \<lparr>success = False, message = ''New password must be at least 8 characters''\<rparr>"
    by (simp add: changePassword_def findById_def store_alice_def alice_info_def alice_doc_def
        comparePassword_def js_def)
  with m have "m = ''New password must be at least 8 characters''" by simp
  with m l f show ?thesis by simp
qed

text \<open>
  C6 as stated fails: a call with Alice as the context user and the new password
  "short" throws "User not found" on a store that no longer holds her record, and
  throws the store's own error when the connection is down; neither returns a result.
\<close>

theorem changePassword_short_new_password_counterexample:
  "ctx_user \<lparr>ctx_user = Some alice_info\<rparr> = Some alice_info \<and>
   length (js ''short'') < 8 \<and>
   changePassword store_empty 1600 \<lparr>ctx_user = Some alice_info\<rparr>
       (js ''secret1234'') (js ''short'') =
     (Inl (UserInputError ''User not found''), store_empty) \<and>
   changePassword \<lparr>users = [alice_doc], db_connected = False\<rparr> 1600
       \<lparr>ctx_user = Some alice_info\<rparr> (js ''secret1234'') (js ''short'') =
     (Inl StoreUnavailable, \<lparr>users = [alice_doc], db_connected = False\<rparr>)"
  by (simp add: changePassword_def findById_def store_empty_def js_def)

section \<open>What the verifier returns, and what it swallows\<close>

text \<open>
  C7. Whenever \<^verbatim>\<open>verifyToken\<close> returns a non-null user, its id, name, email and role
  are those of the record the store returns for the token's embedded id at
  verification time; the name, email and role embedded in the token are not used.
\<close>

theorem verifyToken_returns_stored_fields:
  assumes "verifyToken env d now t = Inr (Some u)"
  shows "\<exists>p c k r. jwt_verify t (JWT_SECRET env) now = Inr p \<and> pl_user p = Some c \<and>
           cl_id c = IdHex k \<and> findById d (IdHex k) = Inr (Some r) \<and>
           u_id u = doc_id r \<and> u_name u = doc_name r \<and>
           u_email u = doc_email r \<and> u_role u = doc_role r"
proof -
  from verifyToken_SomeD [OF assms] obtain p c k r where
    h: "jwt_verify t (JWT_SECRET env) now = Inr p" "pl_user p = Some c" "cl_id c = IdHex k"
       "db_connected d" "find (\<lambda>x. doc_id x = k) (users d) = Some r"
       "u = \<lparr>u_id = doc_id r, u_name = doc_name r, u_email = doc_email r, u_role = doc_role r\<rparr>"
    by blast
  from h(4,5) have "findById d (IdHex k) = Inr (Some r)" by (simp add: findById_def)
  with h show ?thesis by auto
qed

text \<open>
  Witness: Alice's token says Alice, employee; the store says Alicia, admin; the
  verifier answers Alicia, admin.
\<close>

theorem verifyToken_returns_stored_fields_witness:
  "cl_name alice_claims = js ''Alice'' \<and> cl_role alice_claims = EMPLOYEE \<and>
   verifyToken None \<lparr>users = [promoted_doc], db_connected = True\<rparr> 1500 alice_token =
     Inr (Some \<lparr>u_id = 1, u_name = js ''Alicia'', u_email = js ''a@x.com'', u_role = ADMIN\<rparr>)"
proof -
  let ?d = "\<lparr>users = [promoted_doc], db_connected = True\<rparr>"
  obtain u where u: "verifyToken None ?d 1500 alice_token = Inr (Some u)"
    by (simp add: verifyToken_def verifyToken_try_def jwt_verify_alice findById_def
        promoted_doc_def alice_doc_def alice_claims_def)
  from verifyToken_returns_stored_fields [OF u] obtain r where
    r: "findById ?d (IdHex 1) = Inr (Some r)"
    and f: "u_id u = doc_id r" "u_name u = doc_name r" "u_email u = doc_email r"
      "u_role u = doc_role r"
    by (auto simp: jwt_verify_alice alice_claims_def)
  have "doc_id promoted_doc = 1" by (simp add: promoted_doc_def alice_doc_def)
  with r have "r = promoted_doc" by (simp add: findById_def)
  with f have "u = \<lparr>u_id = 1, u_name = js ''Alicia'', u_email = js ''a@x.com'', u_role = ADMIN\<rparr>"
    by (simp add: promoted_doc_def alice_doc_def)
  with u show ?thesis by (simp add: alice_claims_def)
qed

text \<open>
  C8, as amended. When the lookup of the embedded user id fails in the store during
  verification, the failure is caught inside \<^verbatim>\<open>verifyToken\<close> and the result is
  \<^verbatim>\<open>null\<close>; nothing propagates to the caller.
\<close>

theorem verifyToken_swallows_store_failure:
  assumes "jwt_verify t (JWT_SECRET env) now = Inr p" and "pl_user p = Some c"
    and "findById d (cl_id c) = Inl e"
  shows "verifyToken env d now t = Inr None"
  using assms by (simp add: verifyToken_def verifyToken_try_def)

text \<open>Witness: Alice's token while the connection to an empty store is down.\<close>

theorem verifyToken_swallows_store_failure_witness:
  "findById \<lparr>users = [], db_connected = False\<rparr> (cl_id alice_claims) = Inl StoreUnavailable \<and>
   verifyToken None \<lparr>users = [], db_connected = False\<rparr> 1500 alice_token = Inr None"
proof -
  have f: "findById \<lparr>users = [], db_connected = False\<rparr> (cl_id alice_claims) =
      Inl StoreUnavailable"
    by (simp add: findById_def alice_claims_def)
  from verifyToken_swallows_store_failure [OF jwt_verify_alice _ f] f
  show ?thesis by simp
qed

text \<open>
  C8 as stated fails: with Alice's record in the store and her token valid, a store
  whose connection is down makes the lookup raise \<open>StoreUnavailable\<close>, and
  \<^verbatim>\<open>verifyToken\<close> returns \<^verbatim>\<open>null\<close> instead of failing.
\<close>

theorem verifyToken_store_failure_counterexample:
  "findById \<lparr>users = [alice_doc], db_connected = False\<rparr> (IdHex 1) = Inl StoreUnavailable \<and>
   verifyToken None \<lparr>users = [alice_doc], db_connected = False\<rparr> 1500 alice_token = Inr None \<and>
   verifyToken None \<lparr>users = [alice_doc], db_connected = False\<rparr> 1500 alice_token \<noteq>
     Inl StoreUnavailable"
  by (simp add: verifyToken_def verifyToken_try_def jwt_verify_alice findById_def
      alice_claims_def)

section \<open>The client's login\<close>

text \<open>
  C9, as amended. Every call of the client's \<^verbatim>\<open>login(token)\<close> persists the token.
  Where decoding fails, a diagnostic is logged and the current user is left as it was,
  so a context that was anonymous stays anonymous. Where decoding succeeds and the
  payload carries a user, that user becomes the current user and the context is
  authenticated.
\<close>

theorem AuthProvider_login_effect:
  "storage (AuthProvider_login t st) = Some t \<and>
   (\<forall>e. jwtDecode t = Inl e \<longrightarrow>
      st_user (AuthProvider_login t st) = st_user st \<and>
      isAuthenticated (AuthProvider_login t st) = isAuthenticated st \<and>
      console (AuthProvider_login t st) = console st @ [''Invalid token:'']) \<and>
   (\<forall>p c. jwtDecode t = Inr p \<and> pl_user p = Some c \<longrightarrow>
      st_user (AuthProvider_login t st) = Some c \<and>
      isAuthenticated (AuthProvider_login t st) \<and>
      console (AuthProvider_login t st) = console st)"
  by (auto simp: AuthProvider_login_def isAuthenticated_def Let_def split: sum.splits)

text \<open>
  Witness: from the anonymous context, a string that is no token leaves the context
  anonymous, and Alice's token makes it authenticated; both are persisted.
\<close>

theorem AuthProvider_login_effect_witness:
  "jwtDecode (Opaque (js ''garbage'')) = Inl InvalidTokenError \<and>
   isAuthenticated (AuthProvider_login (Opaque (js ''garbage'')) anonymous) = False \<and>
   storage (AuthProvider_login (Opaque (js ''garbage'')) anonymous) =
     Some (Opaque (js ''garbage'')) \<and>
   pl_user (projr (jwtDecode alice_token)) = Some alice_claims \<and>
   isAuthenticated (AuthProvider_login alice_token anonymous) \<and>
   storage (AuthProvider_login alice_token anonymous) = Some alice_token"
proof -
  have a: "jwtDecode (Opaque (js ''garbage'')) = Inl InvalidTokenError"
    by (simp add: jwtDecode_def)
  have b: "jwtDecode alice_token = Inr \<lparr>pl_user = Some alice_claims, pl_iat = 1000,
      pl_nbf = None, pl_exp = Some (1000 + 604800)\<rparr>"
    by (simp add: jwtDecode_def alice_token_def jwt_sign_def)
  have c: "\<not> isAuthenticated anonymous" by (simp add: isAuthenticated_def anonymous_def)
  from AuthProvider_login_effect [of "Opaque (js ''garbage'')" anonymous] a c
  have 1: "isAuthenticated (AuthProvider_login (Opaque (js ''garbage'')) anonymous) = False \<and>
      storage (AuthProvider_login (Opaque (js ''garbage'')) anonymous) =
        Some (Opaque (js ''garbage''))"
    by simp
  from AuthProvider_login_effect [of alice_token anonymous] b
  have 2: "isAuthenticated (AuthProvider_login alice_token anonymous) \<and>
      storage (AuthProvider_login alice_token anonymous) = Some alice_token"
    by simp
  from a b 1 2 show ?thesis by simp
qed

text \<open>
  C9 as stated fails: in a context where Alice is the current user, a login with a
  string that does not decode leaves Alice as the current user, so the context does
  not end anonymous; and the undecodable string has replaced her token in the storage.
\<close>

theorem AuthProvider_login_counterexample:
  "jwtDecode (Opaque (js ''garbage'')) = Inl InvalidTokenError \<and>
   isAuthenticated (AuthProvider_login (Opaque (js ''garbage''))
     \<lparr>st_user = Some alice_claims, loading = False, storage = Some alice_token,
      console = []\<rparr>) \<and>
   st_user (AuthProvider_login (Opaque (js ''garbage''))
     \<lparr>st_user = Some alice_claims, loading = False, storage = Some alice_token,
      console = []\<rparr>) = Some alice_claims \<and>
   storage (AuthProvider_login (Opaque (js ''garbage''))
     \<lparr>st_user = Some alice_claims, loading = False, storage = Some alice_token,
      console = []\<rparr>) = Some (Opaque (js ''garbage''))"
  by (simp add: jwtDecode_def AuthProvider_login_def isAuthenticated_def)

section \<open>Requests without a token\<close>

text \<open>
  C10. For a request with no Authorization header, or one whose header has no second
  space-separated field or an empty one, the context is built with \<^verbatim>\<open>user = null\<close>
  whatever the verifier is: even a verifier that always throws does not make the
  context fail, so the verifier is not invoked.
\<close>

theorem context_without_token:
  assumes "authorization req = None \<or>
           (\<exists>h. authorization req = Some h \<and>
                (length (split_on 0x20 h) < 2 \<or> split_on 0x20 h ! 1 = []))"
  shows "graphql_context verifier req = Inr \<lparr>ctx_user = None\<rparr>"
proof -
  from assms have "header_token req = []"
    by (auto simp: header_token_def at_index_def)
  then show ?thesis by (simp add: graphql_context_def)
qed

text \<open>
  Witness: no header, the header "Bearer" and the header "Bearer " with a verifier
  that always throws.
\<close>

theorem context_without_token_witness:
  "split_on 0x20 (js ''Bearer '') = [js ''Bearer'', []] \<and>
   split_on 0x20 (js ''Bearer'') = [js ''Bearer''] \<and>
   graphql_context (\<lambda>t. Inl StoreUnavailable) \<lparr>authorization = Some (js ''Bearer '')\<rparr> =
     Inr \<lparr>ctx_user = None\<rparr> \<and>
   graphql_context (\<lambda>t. Inl StoreUnavailable) \<lparr>authorization = Some (js ''Bearer'')\<rparr> =
     Inr \<lparr>ctx_user = None\<rparr> \<and>
   graphql_context (\<lambda>t. Inl StoreUnavailable) \<lparr>authorization = None\<rparr> =
     Inr \<lparr>ctx_user = None\<rparr>"
proof -
  have a: "split_on 0x20 (js ''Bearer '') = [js ''Bearer'', []]" by (simp add: js_def)
  have b: "split_on 0x20 (js ''Bearer'') = [js ''Bearer'']" by (simp add: js_def)
  have 1: "graphql_context (\<lambda>t. Inl StoreUnavailable)
      \<lparr>authorization = Some (js ''Bearer '')\<rparr> = Inr \<lparr>ctx_user = None\<rparr>"
    by (rule context_without_token) (simp add: a)
  have 2: "graphql_context (\<lambda>t. Inl StoreUnavailable)
      \<lparr>authorization = Some (js ''Bearer'')\<rparr> = Inr \<lparr>ctx_user = None\<rparr>"
    by (rule context_without_token) (simp add: b)
  have 3: "graphql_context (\<lambda>t. Inl StoreUnavailable) \<lparr>authorization = None\<rparr> =
      Inr \<lparr>ctx_user = None\<rparr>"
    by (rule context_without_token) simp
  from a b 1 2 3 show ?thesis by simp
qed

end
